theory Spec2Isabelle
  imports Main
begin

section \<open>Data model (config.go)\<close>

text \<open>
  A \<open>time.Time\<close> value is observed by the program in two ways only: as an instant
  (subtracted by \<open>time.Since\<close>) and through \<open>Format(time.DateOnly)\<close>. The model keeps
  these two observations. Instants and \<open>time.Duration\<close> values are nanosecond counts;
  they are unbounded integers here (Go saturates a duration beyond about 292 years).
\<close>

record gotime =
  instant :: int
  dateOnly :: string

definition zeroTime :: gotime where
  "zeroTime = \<lparr>instant = 0, dateOnly = ''0001-01-01''\<rparr>"

definition second :: int where
  "second = 1000000000"

record SearchResult =
  Query :: string
  Response :: string
  Summary :: string
  Success :: bool
  Error :: string
  Duration :: int
  Timestamp :: gotime

text \<open>The zero value of the struct, as \<open>make([]SearchResult, n)\<close> and a composite
  literal leave every field that is not named.\<close>

definition zeroSearchResult :: SearchResult where
  "zeroSearchResult =
     \<lparr>Query = [], Response = [], Summary = [], Success = False, Error = [],
      Duration = 0, Timestamp = zeroTime\<rparr>"

text \<open>\<open>MultiSearchResult\<close>: its fields \<open>Success\<close> and \<open>Error\<close> carry the suffix
  \<open>_multi\<close>, since the names are taken by \<open>SearchResult\<close>.\<close>

record MultiSearchResult =
  Results :: "SearchResult list"
  TotalTime :: int
  Success_multi :: bool
  Error_multi :: string

record Config =
  query :: string
  queries :: "string list"
  outputJSON :: bool
  verbose :: bool
  stream :: bool
  workers :: int
  timeout :: int
  includeSummary :: bool
  includeSummaryExplicit :: bool

section \<open>The Answer Engine and the process environment\<close>

text \<open>
  The genai client is outside the repository. A \<open>GenerateContentResponse\<close> is modelled by
  the texts of its candidates; \<open>Text()\<close> is the text of the first candidate and the empty
  string when there is none. A Go \<open>error\<close> is modelled by its message, and the pair
  \<open>(response, err)\<close> a call returns by a sum: \<open>Inl\<close> the error, \<open>Inr\<close> the response.
\<close>

type_synonym response = "string list"
type_synonym genResult = "string + response"

definition Text :: "response \<Rightarrow> string" where
  "Text r = (case r of [] \<Rightarrow> [] | t # _ \<Rightarrow> t)"

datatype tool = GoogleSearch | URLContext

definition tools :: "tool list" where
  "tools = [GoogleSearch, URLContext]"

definition thinkingBudget :: int where
  "thinkingBudget = 512"

definition model :: string where
  "model = ''gemini-2.5-flash''"

record request =
  reqModel :: string
  reqRole :: string
  reqText :: string
  reqSystemInstruction :: string
  reqTools :: "tool list"
  reqThinkingBudget :: int

text \<open>
  The world a goroutine runs in: the two embedded prompt files (not part of the sources,
  so parameters), a canned clock and a canned, instrumented Answer Engine. The \<open>k\<close>-th
  reading of \<open>time.Now\<close> is \<open>clock k\<close>; the \<open>k\<close>-th call of \<open>GenerateContent\<close> with
  request \<open>r\<close> answers \<open>engine k r\<close>, and \<open>GenerateContentStream\<close> yields the finite
  sequence \<open>streamEngine k r\<close>. The requests sent are recorded in \<open>calls\<close> and
  \<open>streamCalls\<close>, the bytes written to the standard output in \<open>stdout\<close>, the sleeps in
  \<open>slept\<close>. Diagnostic logging (\<open>log/slog\<close>) only writes to the standard error stream
  and is left out.
\<close>

record world =
  systemInstructionText :: string
  summaryInstructionText :: string
  clock :: "nat \<Rightarrow> gotime"
  clockReads :: nat
  engine :: "nat \<Rightarrow> request \<Rightarrow> genResult"
  streamEngine :: "nat \<Rightarrow> request \<Rightarrow> genResult list"
  calls :: "request list"
  streamCalls :: "request list"
  stdout :: string
  slept :: "int list"

definition timeNow :: "world \<Rightarrow> gotime \<times> world" where
  "timeNow w = (clock w (clockReads w), w\<lparr>clockReads := Suc (clockReads w)\<rparr>)"

definition timeSince :: "gotime \<Rightarrow> world \<Rightarrow> int \<times> world" where
  "timeSince t w = (let (now, w') = timeNow w in (instant now - instant t, w'))"

definition timeSleep :: "int \<Rightarrow> world \<Rightarrow> world" where
  "timeSleep d w = w\<lparr>slept := slept w @ [d]\<rparr>"

definition fmtPrint :: "string \<Rightarrow> world \<Rightarrow> world" where
  "fmtPrint s w = w\<lparr>stdout := stdout w @ s\<rparr>"

definition GenerateContent :: "request \<Rightarrow> world \<Rightarrow> genResult \<times> world" where
  "GenerateContent r w = (engine w (length (calls w)) r, w\<lparr>calls := calls w @ [r]\<rparr>)"

definition GenerateContentStream :: "request \<Rightarrow> world \<Rightarrow> genResult list \<times> world" where
  "GenerateContentStream r w =
     (streamEngine w (length (streamCalls w)) r, w\<lparr>streamCalls := streamCalls w @ [r]\<rparr>)"

section \<open>The non-streaming executor (search.go, performSingleSearch)\<close>

definition nl :: char where
  "nl = CHR 0x0A"

text \<open>The request text, \<open>fmt.Sprintf\<close> of the query and the date.\<close>

definition queryPrompt :: "string \<Rightarrow> string \<Rightarrow> string" where
  "queryPrompt q isoDateString =
     [nl] @ ''<query>'' @ [nl] @ q @ [nl] @ ''</query>'' @ [nl, nl]
     @ ''Time Context: today is '' @ isoDateString @ [nl, nl]"

definition searchRequest :: "string \<Rightarrow> string \<Rightarrow> string \<Rightarrow> request" where
  "searchRequest sys q isoDateString =
     \<lparr>reqModel = model, reqRole = ''user'', reqText = queryPrompt q isoDateString,
      reqSystemInstruction = sys, reqTools = tools, reqThinkingBudget = thinkingBudget\<rparr>"

text \<open>The test that leaves the retry loop: \<open>err == nil && response.Text() != ""\<close>.\<close>

definition answered :: "genResult \<Rightarrow> bool" where
  "answered r = (case r of Inl err \<Rightarrow> False | Inr resp \<Rightarrow> Text resp \<noteq> [])"

text \<open>
  The loop \<open>for attempt := 0; attempt < 2; attempt++\<close>. Its test holds on entry, so the
  body runs before the test is ever false and \<open>response\<close>, \<open>err\<close> are assigned when the
  loop ends: \<open>searchAttempts attempt\<close> runs the body for \<open>attempt\<close>, then the increment
  and the test. It returns the last values of \<open>(response, err)\<close>.
\<close>

function searchAttempts :: "nat \<Rightarrow> request \<Rightarrow> world \<Rightarrow> genResult \<times> world" where
  "searchAttempts attempt content w =
     (let (r, w1) = GenerateContent content w in
      if answered r then (r, w1)
      else
        let w2 = (if attempt = 0 then timeSleep (3 * second) w1 else w1) in
        if attempt + 1 < 2 then searchAttempts (attempt + 1) content w2 else (r, w2))"
  by pat_completeness auto
termination
  by (relation "measure (\<lambda>(attempt, content, w). 2 - attempt)") auto

text \<open>The function returns the pair \<open>(result, err)\<close>; \<open>None\<close> is the nil error.\<close>

definition performSingleSearch ::
  "string \<Rightarrow> world \<Rightarrow> (SearchResult \<times> string option) \<times> world" where
  "performSingleSearch q w0 =
     (let (startTime, w1) = timeNow w0;
          result = zeroSearchResult\<lparr>Query := q, Timestamp := startTime\<rparr>;
          (today, w2) = timeNow w1;
          isoDateString = dateOnly today;
          content = searchRequest (systemInstructionText w2) q isoDateString;
          (r, w3) = searchAttempts 0 content w2;
          (d, w4) = timeSince startTime w3;
          result = result\<lparr>Duration := d\<rparr>
      in case r of
           Inl err \<Rightarrow>
             ((result\<lparr>Error := ''Search failed'', Success := False\<rparr>,
               Some (''failed to generate content after retries: '' @ err)), w4)
         | Inr resp \<Rightarrow>
             if Text resp = []
             then ((result\<lparr>Error := ''Empty response'', Success := False\<rparr>,
                    Some ''received empty response after retries''), w4)
             else ((result\<lparr>Response := Text resp, Success := True\<rparr>, None), w4))"

section \<open>The streaming executor (search.go, performSingleSearchStream)\<close>

text \<open>
  The inner loop \<open>for response, err := range iterator\<close> over the finite sequence the
  engine yields. It carries \<open>responseText\<close> and \<open>lastErr\<close> and returns them with
  \<open>streamSuccess\<close>; an item with an error ends the loop (\<open>break\<close>), an item with at
  least one candidate is printed and appended.
\<close>

fun rangeIterator ::
  "genResult list \<Rightarrow> string \<Rightarrow> string option \<Rightarrow> world \<Rightarrow> string \<times> string option \<times> bool \<times> world" where
  "rangeIterator [] responseText lastErr w = (responseText, lastErr, True, w)"
| "rangeIterator (Inl err # rest) responseText lastErr w = (responseText, Some err, False, w)"
| "rangeIterator (Inr resp # rest) responseText lastErr w =
     (if length resp > 0
      then let chunk = Text resp in
           rangeIterator rest (responseText @ chunk) lastErr (fmtPrint chunk w)
      else rangeIterator rest responseText lastErr w)"

text \<open>The horizontal rule printed after the last attempt: 77 times U+2500, in UTF-8.\<close>

definition ruleLine :: string where
  "ruleLine = concat (replicate 77 [CHR 0xE2, CHR 0x94, CHR 0x80])"

text \<open>
  The outer loop, with the variables \<open>responseText\<close> and \<open>lastErr\<close> it shares with the
  code after it. Every attempt starts from an empty \<open>responseText\<close>; \<open>lastErr\<close> is never
  reset.
\<close>

function streamAttempts ::
  "nat \<Rightarrow> request \<Rightarrow> string \<Rightarrow> string option \<Rightarrow> world \<Rightarrow> (string \<times> string option) \<times> world" where
  "streamAttempts attempt content responseText lastErr w =
     (if attempt < 2 then
        let (iterator, w1) = GenerateContentStream content w;
            (responseText', lastErr', streamSuccess, w2) = rangeIterator iterator [] lastErr w1
        in if streamSuccess \<and> responseText' \<noteq> [] then ((responseText', lastErr'), w2)
           else
             let w3 = (if attempt = 0
                       then timeSleep (3 * second) (fmtPrint ([nl] @ ''[Retrying...]'' @ [nl]) w2)
                       else w2)
             in streamAttempts (attempt + 1) content responseText' lastErr' w3
      else ((responseText, lastErr), w))"
  by pat_completeness auto
termination
  by (relation "measure (\<lambda>(attempt, content, responseText, lastErr, w). 2 - attempt)") auto

definition performSingleSearchStream ::
  "string \<Rightarrow> world \<Rightarrow> (SearchResult \<times> string option) \<times> world" where
  "performSingleSearchStream q w0 =
     (let (startTime, w1) = timeNow w0;
          result = zeroSearchResult\<lparr>Query := q, Timestamp := startTime\<rparr>;
          (today, w2) = timeNow w1;
          isoDateString = dateOnly today;
          content = searchRequest (systemInstructionText w2) q isoDateString;
          w3 = fmtPrint ([nl] @ ''=== '' @ q @ '' ==='' @ [nl]) w2;
          ((responseText, lastErr), w4) = streamAttempts 0 content [] None w3;
          w5 = fmtPrint ([nl] @ ruleLine @ [nl]) w4;
          (d, w6) = timeSince startTime w5;
          result = result\<lparr>Duration := d\<rparr>
      in if lastErr \<noteq> None \<and> responseText = []
         then ((result\<lparr>Error := ''Stream search failed'', Success := False\<rparr>,
                Some (''failed to stream content after retries: '' @ the lastErr)), w6)
         else if responseText = []
         then ((result\<lparr>Error := ''Empty stream response'', Success := False\<rparr>,
                Some ''received empty stream response after retries''), w6)
         else ((result\<lparr>Response := responseText, Success := True\<rparr>, None), w6))"

section \<open>The summarizer (search.go, generateSummary)\<close>

definition summaryRequest :: "string \<Rightarrow> string \<Rightarrow> string \<Rightarrow> request" where
  "summaryRequest sys q resp =
     \<lparr>reqModel = model, reqRole = ''user'',
      reqText = ''Query: '' @ q @ [nl, nl] @ ''Search Results:'' @ [nl] @ resp,
      reqSystemInstruction = sys, reqTools = [], reqThinkingBudget = thinkingBudget\<rparr>"

function summaryAttempts :: "nat \<Rightarrow> request \<Rightarrow> world \<Rightarrow> genResult \<times> world" where
  "summaryAttempts attempt content w =
     (let (r, w1) = GenerateContent content w in
      if answered r then (r, w1)
      else
        let w2 = (if attempt = 0 then timeSleep (3 * second) w1 else w1) in
        if attempt + 1 < 2 then summaryAttempts (attempt + 1) content w2 else (r, w2))"
  by pat_completeness auto
termination
  by (relation "measure (\<lambda>(attempt, content, w). 2 - attempt)") auto

definition generateSummary ::
  "string \<Rightarrow> string \<Rightarrow> world \<Rightarrow> (string \<times> string option) \<times> world" where
  "generateSummary q resp w =
     (let content = summaryRequest (summaryInstructionText w) q resp;
          (r, w1) = summaryAttempts 0 content w
      in case r of
           Inl err \<Rightarrow> (([], Some (''failed to generate summary after retries: '' @ err)), w1)
         | Inr res \<Rightarrow>
             if Text res = [] then (([], Some ''received empty summary after retries''), w1)
             else ((Text res, None), w1))"

section \<open>One query of a batch (search.go, processQuery)\<close>

definition processQuery :: "string \<Rightarrow> bool \<Rightarrow> world \<Rightarrow> SearchResult \<times> world" where
  "processQuery q inclSummary w0 =
     (let (startTime, w1) = timeNow w0;
          result = zeroSearchResult\<lparr>Query := q, Timestamp := startTime\<rparr>;
          ((searchResult, err), w2) = performSingleSearch q w1
      in case err of
           Some e \<Rightarrow>
             let (d, w3) = timeSince startTime w2 in
             (result\<lparr>Success := False, Error := e, Duration := d\<rparr>, w3)
         | None \<Rightarrow>
             let result = result\<lparr>Response := Response searchResult,
                                  Success := Success searchResult,
                                  Duration := Duration searchResult\<rparr>
             in if Success result \<and> inclSummary then
                  let ((summary, err'), w3) = generateSummary q (Response result) w2 in
                  (case err' of
                     Some e' \<Rightarrow> (result\<lparr>Summary := ''Summary generation failed''\<rparr>, w3)
                   | None \<Rightarrow> (result\<lparr>Summary := summary\<rparr>, w3))
                else (result, w2))"

section \<open>The single-query path of main\<close>

text \<open>
  The branch \<open>config.query != ""\<close> of \<open>main\<close>, up to the call of \<open>result.Output\<close>:
  \<open>Inl c\<close> is the process leaving with exit code \<open>c\<close> (\<open>handleError\<close>, \<open>os.Exit\<close>, or the
  return of the stream mode), \<open>Inr result\<close> is the record handed to \<open>Output\<close>.
\<close>

definition mainSingleQuery :: "Config \<Rightarrow> world \<Rightarrow> (int + SearchResult) \<times> world" where
  "mainSingleQuery config w0 =
     (let ((result, err), w1) =
            (if stream config then performSingleSearchStream (query config) w0
             else performSingleSearch (query config) w0)
      in case err of
           Some e \<Rightarrow> (Inl 1, w1)
         | None \<Rightarrow>
             if stream config then (if \<not> Success result then (Inl 1, w1) else (Inl 0, w1))
             else if includeSummary config \<and> Success result then
               let ((summary, err'), w2) = generateSummary (Query result) (Response result) w1 in
               (case err' of
                  Some e' \<Rightarrow> (Inr (result\<lparr>Summary := ''Summary generation failed''\<rparr>), w2)
                | None \<Rightarrow> (Inr (result\<lparr>Summary := summary\<rparr>), w2))
             else (Inr result, w1))"

section \<open>The batch (search.go, processMultipleQueries)\<close>

text \<open>
  One goroutine per query, indexed by the position of its query. A goroutine is
  \<open>Queued\<close> until its send \<open>sem <- struct{}{}\<close> goes through, then \<open>Running\<close> inside
  \<open>processQuery\<close>, where it is \<open>Calling\<close> whenever a call of the Answer Engine is in
  flight, and \<open>Finished\<close> once it has stored its result, taken its token back from the
  channel and called \<open>wg.Done\<close>. The field \<open>sem\<close> is the number of tokens in the
  buffered channel, whose capacity is \<open>config.workers\<close>.
\<close>

datatype phase = Queued | Running | Calling | Finished

record pool =
  phases :: "phase list"
  results :: "SearchResult list"
  sem :: nat

definition initialPool :: "nat \<Rightarrow> pool" where
  "initialPool n =
     \<lparr>phases = replicate n Queued, results = replicate n zeroSearchResult, sem = 0\<rparr>"

text \<open>
  The scheduler's choices. \<open>Complete index w\<close> lets goroutine \<open>index\<close> run
  \<open>processQuery\<close> to its end; \<open>w\<close> is the world as this goroutine sees it, that is the
  clock readings and engine answers that reach it, whatever the other goroutines do
  meanwhile. The deadline of the context only acts through the engine's answers.
\<close>

datatype event = Acquire nat | CallBegin nat | CallEnd nat | Complete nat world

fun fire :: "string list \<Rightarrow> Config \<Rightarrow> event \<Rightarrow> pool \<Rightarrow> pool option" where
  "fire qs config (Acquire index) s =
     (if index < length qs \<and> phases s ! index = Queued \<and> int (sem s) < workers config
      then Some (s\<lparr>phases := (phases s)[index := Running], sem := sem s + 1\<rparr>)
      else None)"
| "fire qs config (CallBegin index) s =
     (if index < length qs \<and> phases s ! index = Running
      then Some (s\<lparr>phases := (phases s)[index := Calling]\<rparr>)
      else None)"
| "fire qs config (CallEnd index) s =
     (if index < length qs \<and> phases s ! index = Calling
      then Some (s\<lparr>phases := (phases s)[index := Running]\<rparr>)
      else None)"
| "fire qs config (Complete index w) s =
     (if index < length qs \<and> phases s ! index = Running
      then let (result, w') = processQuery (qs ! index) (includeSummary config) w in
           Some (s\<lparr>results := (results s)[index := result],
                    phases := (phases s)[index := Finished], sem := sem s - 1\<rparr>)
      else None)"

fun runSchedule :: "string list \<Rightarrow> Config \<Rightarrow> event list \<Rightarrow> pool \<Rightarrow> pool option" where
  "runSchedule qs config [] s = Some s"
| "runSchedule qs config (e # es) s =
     (case fire qs config e s of None \<Rightarrow> None | Some s' \<Rightarrow> runSchedule qs config es s')"

text \<open>
  \<open>MakeChanPanic\<close>: \<open>make(chan struct{}, config.workers)\<close> panics on a negative size.
  \<open>NotARun\<close>: the event list is not an execution of the goroutines that lets
  \<open>wg.Wait\<close> return.
\<close>

datatype batchFailure = MakeChanPanic | NotARun

definition poolAfter :: "string list \<Rightarrow> Config \<Rightarrow> event list \<Rightarrow> batchFailure + pool" where
  "poolAfter qs config sched =
     (if workers config < 0 then Inl MakeChanPanic
      else case runSchedule qs config sched (initialPool (length qs)) of
             None \<Rightarrow> Inl NotARun
           | Some s \<Rightarrow> Inr s)"

definition inFlight :: "pool \<Rightarrow> nat" where
  "inFlight s = length (filter (\<lambda>p. p = Calling) (phases s))"

text \<open>The loop that counts the successful results.\<close>

fun countSuccess :: "SearchResult list \<Rightarrow> nat \<Rightarrow> nat" where
  "countSuccess [] successCount = successCount"
| "countSuccess (result # rest) successCount =
     countSuccess rest (if Success result then successCount + 1 else successCount)"

text \<open>The verb \<open>%d\<close> of \<open>fmt.Sprintf\<close> on a number that is not negative.\<close>

fun decimal :: "nat \<Rightarrow> string" where
  "decimal n =
     (if n < 10 then [''0123456789'' ! n]
      else decimal (n div 10) @ [''0123456789'' ! (n mod 10)])"

definition processMultipleQueries ::
  "string list \<Rightarrow> Config \<Rightarrow> event list \<Rightarrow> world \<Rightarrow> (batchFailure + MultiSearchResult) \<times> world" where
  "processMultipleQueries qs config sched w0 =
     (let (startTime, w1) = timeNow w0 in
      case poolAfter qs config sched of
        Inl failure \<Rightarrow> (Inl failure, w1)
      | Inr s \<Rightarrow>
          if \<not> list_all (\<lambda>p. p = Finished) (phases s) then (Inl NotARun, w1)
          else
            let (totalTime, w2) = timeSince startTime w1;
                successCount = countSuccess (results s) 0;
                multiResult = \<lparr>Results = results s, TotalTime = totalTime,
                               Success_multi = (successCount = length qs), Error_multi = []\<rparr>;
                multiResult =
                  (if \<not> Success_multi multiResult
                   then multiResult\<lparr>Error_multi :=
                          ''Completed '' @ decimal successCount @ ''/'' @ decimal (length qs)
                          @ '' queries successfully''\<rparr>
                   else multiResult)
            in (Inr multiResult, w2))"

section \<open>Canned clocks and engines\<close>

definition cannedClock :: "nat \<Rightarrow> gotime" where
  "cannedClock k = \<lparr>instant = 1000 * int k, dateOnly = ''2026-01-15''\<rparr>"

definition cannedWorld ::
  "(nat \<Rightarrow> request \<Rightarrow> genResult) \<Rightarrow> (nat \<Rightarrow> request \<Rightarrow> genResult list) \<Rightarrow> world" where
  "cannedWorld e se =
     \<lparr>systemInstructionText = ''system'', summaryInstructionText = ''summary'',
      clock = cannedClock, clockReads = 0, engine = e, streamEngine = se,
      calls = [], streamCalls = [], stdout = [], slept = []\<rparr>"

definition noStream :: "nat \<Rightarrow> request \<Rightarrow> genResult list" where
  "noStream k r = []"

text \<open>Empty text on the first call, an answer on the second, errors afterwards.\<close>

definition emptyThenAnswer :: "nat \<Rightarrow> request \<Rightarrow> genResult" where
  "emptyThenAnswer k r =
     (if k = 0 then Inr [[]] else if k = 1 then Inr [''Go is a language''] else Inl ''quota'')"

definition alwaysEmpty :: "nat \<Rightarrow> request \<Rightarrow> genResult" where
  "alwaysEmpty k r = Inr [[]]"

definition alwaysError :: "nat \<Rightarrow> request \<Rightarrow> genResult" where
  "alwaysError k r = Inl ''deadline exceeded''"

text \<open>An answer to the search, then errors: the summary calls fail.\<close>

definition answerThenError :: "nat \<Rightarrow> request \<Rightarrow> genResult" where
  "answerThenError k r = (if k = 0 then Inr [''Python is a language''] else Inl ''quota'')"

definition alwaysAnswer :: "nat \<Rightarrow> request \<Rightarrow> genResult" where
  "alwaysAnswer k r = (if reqTools r = [] then Inr [''short''] else Inr [''long answer''])"

definition noEngine :: "nat \<Rightarrow> request \<Rightarrow> genResult" where
  "noEngine k r = Inl ''unused''"



definition emptyStreams :: "nat \<Rightarrow> request \<Rightarrow> genResult list" where
  "emptyStreams k r = [Inr []]"

definition batchConfig :: Config where
  "batchConfig =
     \<lparr>query = [], queries = [''Go'', ''Python''], outputJSON = False, verbose = False,
      stream = False, workers = 2, timeout = 180 * second, includeSummary = True,
      includeSummaryExplicit = False\<rparr>"

definition singleConfig :: Config where
  "singleConfig =
     \<lparr>query = ''Python'', queries = [], outputJSON = False, verbose = False,
      stream = False, workers = 3, timeout = 180 * second, includeSummary = True,
      includeSummaryExplicit = True\<rparr>"

text \<open>A run of the batch in which the second query completes first.\<close>

definition outOfOrder :: "event list" where
  "outOfOrder =
     [Acquire 1, Acquire 0, CallBegin 1, CallBegin 0, CallEnd 1,
      Complete 1 (cannedWorld alwaysAnswer noStream), CallEnd 0,
      Complete 0 (cannedWorld alwaysAnswer noStream)]"

text \<open>A run in which the second query fails and completes first, and the beginning of a
  run in which both goroutines have a call in flight.\<close>

definition mixedSchedule :: "event list" where
  "mixedSchedule =
     [Acquire 0, Acquire 1, Complete 1 (cannedWorld alwaysEmpty noStream),
      Complete 0 (cannedWorld alwaysAnswer noStream)]"

definition bothCalling :: "event list" where
  "bothCalling = [Acquire 1, Acquire 0, CallBegin 1, CallBegin 0]"

text \<open>The schedule that lets the goroutines run one after the other, goroutine \<open>index\<close>
  in the world \<open>ws index\<close>.\<close>

definition oneByOne :: "nat \<Rightarrow> (nat \<Rightarrow> world) \<Rightarrow> event list" where
  "oneByOne n ws = concat (map (\<lambda>index. [Acquire index, Complete index (ws index)]) [0..<n])"

section \<open>Auxiliary notions for the statements and proofs\<close>

text \<open>What one pass over a stream accumulates, and the error that ends it, if any.\<close>

fun chunksText :: "genResult list \<Rightarrow> string" where
  "chunksText [] = []"
| "chunksText (Inl err # rest) = []"
| "chunksText (Inr resp # rest) = Text resp @ chunksText rest"

fun firstError :: "genResult list \<Rightarrow> string option" where
  "firstError [] = None"
| "firstError (Inl err # rest) = Some err"
| "firstError (Inr resp # rest) = firstError rest"

text \<open>The shape of a well-formed outcome: an answer without a failure reason, or a failure
  reason without an answer.\<close>

definition outcomeInvariant :: "SearchResult \<Rightarrow> bool" where
  "outcomeInvariant r =
     (if Success r then Response r \<noteq> [] \<and> Error r = [] else Error r \<noteq> [] \<and> Response r = [])"

text \<open>
  Invariants of the pool: every slot of a finished goroutine holds an outcome of
  \<open>processQuery\<close> on its own query; the tokens in the channel are the goroutines between
  their send and their receive, and never more than the capacity.
\<close>

definition slotsOk :: "string list \<Rightarrow> Config \<Rightarrow> pool \<Rightarrow> bool" where
  "slotsOk qs config s \<longleftrightarrow>
     length (phases s) = length qs \<and> length (results s) = length qs
     \<and> (\<forall>i < length qs. phases s ! i = Finished \<longrightarrow>
           (\<exists>w. results s ! i = fst (processQuery (qs ! i) (includeSummary config) w)))"

definition holders :: "pool \<Rightarrow> nat" where
  "holders s = length (filter (\<lambda>p. p = Running \<or> p = Calling) (phases s))"

definition semOk :: "Config \<Rightarrow> pool \<Rightarrow> bool" where
  "semOk config s \<longleftrightarrow> sem s = holders s \<and> int (sem s) \<le> workers config"

section \<open>The retry loops, unrolled\<close>

declare searchAttempts.simps [simp del] summaryAttempts.simps [simp del] streamAttempts.simps [simp del]

lemma searchAttempts_0:
  "searchAttempts 0 c w =
     (let r1 = engine w (length (calls w)) c in
      if answered r1 then (r1, w\<lparr>calls := calls w @ [c]\<rparr>)
      else (engine w (Suc (length (calls w))) c,
            w\<lparr>calls := calls w @ [c, c], slept := slept w @ [3 * second]\<rparr>))"
  by (simp add: searchAttempts.simps [of 0] searchAttempts.simps [of "Suc 0"] GenerateContent_def
      timeSleep_def Let_def)

lemma summaryAttempts_0:
  "summaryAttempts 0 c w =
     (let r1 = engine w (length (calls w)) c in
      if answered r1 then (r1, w\<lparr>calls := calls w @ [c]\<rparr>)
      else (engine w (Suc (length (calls w))) c,
            w\<lparr>calls := calls w @ [c, c], slept := slept w @ [3 * second]\<rparr>))"
  by (simp add: summaryAttempts.simps [of 0] summaryAttempts.simps [of "Suc 0"] GenerateContent_def
      timeSleep_def Let_def)

lemma performSingleSearch_eq:
  "performSingleSearch q w =
     (let req = searchRequest (systemInstructionText w) q (dateOnly (clock w (Suc (clockReads w))));
          r1 = engine w (length (calls w)) req;
          r2 = engine w (Suc (length (calls w))) req;
          r = (if answered r1 then r1 else r2);
          w' = (if answered r1 then w\<lparr>clockReads := clockReads w + 3, calls := calls w @ [req]\<rparr>
                else w\<lparr>clockReads := clockReads w + 3, calls := calls w @ [req, req],
                       slept := slept w @ [3 * second]\<rparr>);
          result = zeroSearchResult\<lparr>Query := q, Timestamp := clock w (clockReads w),
                     Duration := instant (clock w (clockReads w + 2)) - instant (clock w (clockReads w))\<rparr>
      in case r of
           Inl err \<Rightarrow>
             ((result\<lparr>Error := ''Search failed'', Success := False\<rparr>,
               Some (''failed to generate content after retries: '' @ err)), w')
         | Inr resp \<Rightarrow>
             if Text resp = []
             then ((result\<lparr>Error := ''Empty response'', Success := False\<rparr>,
                    Some ''received empty response after retries''), w')
             else ((result\<lparr>Response := Text resp, Success := True\<rparr>, None), w'))"
  by (simp add: performSingleSearch_def searchAttempts_0 timeNow_def timeSince_def Let_def
      split: sum.splits)

lemma Text_Nil [simp]: "Text [] = []"
  by (simp add: Text_def)

lemma rangeIterator_eq:
  "rangeIterator xs t e w =
     (t @ chunksText xs, (case firstError xs of None \<Rightarrow> e | Some x \<Rightarrow> Some x),
      firstError xs = None, w\<lparr>stdout := stdout w @ chunksText xs\<rparr>)"
proof (induction xs t e w rule: rangeIterator.induct)
  case (1 responseText lastErr w)
  show ?case by simp
next
  case (2 err rest responseText lastErr w)
  show ?case by simp
next
  case (3 resp rest responseText lastErr w)
  show ?case
  proof (cases "length resp > 0")
    case True
    with 3(1) [OF True refl] show ?thesis by (simp add: fmtPrint_def Let_def)
  next
    case False
    with 3(2) [OF False] show ?thesis by simp
  qed
qed

lemma streamAttempts_2: "streamAttempts (Suc (Suc 0)) c t e w = ((t, e), w)"
  by (simp add: streamAttempts.simps [of "Suc (Suc 0)"])

lemma streamAttempts_1:
  "streamAttempts (Suc 0) c t e w =
     (let xs = streamEngine w (length (streamCalls w)) c in
      ((chunksText xs, (case firstError xs of None \<Rightarrow> e | Some x \<Rightarrow> Some x)),
       w\<lparr>streamCalls := streamCalls w @ [c], stdout := stdout w @ chunksText xs\<rparr>))"
  by (simp add: streamAttempts.simps [of "Suc 0"] streamAttempts_2 GenerateContentStream_def
      rangeIterator_eq Let_def)

lemma streamAttempts_0:
  "streamAttempts 0 c t e w =
     (let xs = streamEngine w (length (streamCalls w)) c;
          e1 = (case firstError xs of None \<Rightarrow> e | Some x \<Rightarrow> Some x) in
      if firstError xs = None \<and> chunksText xs \<noteq> []
      then ((chunksText xs, e1),
            w\<lparr>streamCalls := streamCalls w @ [c], stdout := stdout w @ chunksText xs\<rparr>)
      else
        let ys = streamEngine w (Suc (length (streamCalls w))) c in
        ((chunksText ys, (case firstError ys of None \<Rightarrow> e1 | Some x \<Rightarrow> Some x)),
         w\<lparr>streamCalls := streamCalls w @ [c, c],
           stdout := stdout w @ chunksText xs @ [nl] @ ''[Retrying...]'' @ [nl] @ chunksText ys,
           slept := slept w @ [3 * second]\<rparr>))"
  by (simp add: streamAttempts.simps [of 0] streamAttempts_1 GenerateContentStream_def
      rangeIterator_eq Let_def timeSleep_def fmtPrint_def)

lemma performSingleSearchStream_eq:
  "performSingleSearchStream q w =
     (let req = searchRequest (systemInstructionText w) q (dateOnly (clock w (Suc (clockReads w))));
          xs = streamEngine w (length (streamCalls w)) req;
          ys = streamEngine w (Suc (length (streamCalls w))) req;
          done1 = (firstError xs = None \<and> chunksText xs \<noteq> []);
          responseText = (if done1 then chunksText xs else chunksText ys);
          lastErr = (if done1 then None
                     else case firstError ys of None \<Rightarrow> firstError xs | Some x \<Rightarrow> Some x);
          w' = (if done1
                then w\<lparr>clockReads := clockReads w + 3, streamCalls := streamCalls w @ [req],
                       stdout := stdout w @ [nl] @ ''=== '' @ q @ '' ==='' @ [nl] @ chunksText xs
                                 @ [nl] @ ruleLine @ [nl]\<rparr>
                else w\<lparr>clockReads := clockReads w + 3, streamCalls := streamCalls w @ [req, req],
                       stdout := stdout w @ [nl] @ ''=== '' @ q @ '' ==='' @ [nl] @ chunksText xs
                                 @ [nl] @ ''[Retrying...]'' @ [nl] @ chunksText ys
                                 @ [nl] @ ruleLine @ [nl],
                       slept := slept w @ [3 * second]\<rparr>);
          result = zeroSearchResult\<lparr>Query := q, Timestamp := clock w (clockReads w),
                     Duration := instant (clock w (clockReads w + 2)) - instant (clock w (clockReads w))\<rparr>
      in if lastErr \<noteq> None \<and> responseText = []
         then ((result\<lparr>Error := ''Stream search failed'', Success := False\<rparr>,
                Some (''failed to stream content after retries: '' @ the lastErr)), w')
         else if responseText = []
         then ((result\<lparr>Error := ''Empty stream response'', Success := False\<rparr>,
                Some ''received empty stream response after retries''), w')
         else ((result\<lparr>Response := responseText, Success := True\<rparr>, None), w'))"
  by (auto simp add: performSingleSearchStream_def streamAttempts_0 timeNow_def timeSince_def
      Let_def fmtPrint_def split: option.splits)

lemma generateSummary_eq:
  "generateSummary q resp w =
     (let req = summaryRequest (summaryInstructionText w) q resp;
          r1 = engine w (length (calls w)) req;
          r2 = engine w (Suc (length (calls w))) req;
          r = (if answered r1 then r1 else r2);
          w' = (if answered r1 then w\<lparr>calls := calls w @ [req]\<rparr>
                else w\<lparr>calls := calls w @ [req, req], slept := slept w @ [3 * second]\<rparr>)
      in case r of
           Inl err \<Rightarrow> (([], Some (''failed to generate summary after retries: '' @ err)), w')
         | Inr res \<Rightarrow>
             if Text res = [] then (([], Some ''received empty summary after retries''), w')
             else ((Text res, None), w'))"
  by (simp add: generateSummary_def summaryAttempts_0 Let_def split: sum.splits)

lemma performSingleSearch_facts:
  "(snd (fst (performSingleSearch q w)) = None \<longleftrightarrow> Success (fst (fst (performSingleSearch q w))))
   \<and> Query (fst (fst (performSingleSearch q w))) = q
   \<and> outcomeInvariant (fst (fst (performSingleSearch q w)))
   \<and> Summary (fst (fst (performSingleSearch q w))) = []
   \<and> snd (fst (performSingleSearch q w)) \<noteq> Some []
   \<and> Duration (fst (fst (performSingleSearch q w)))
       = instant (clock w (clockReads w + 2)) - instant (clock w (clockReads w))
   \<and> Timestamp (fst (fst (performSingleSearch q w))) = clock w (clockReads w)"
  by (simp add: performSingleSearch_eq Let_def zeroSearchResult_def outcomeInvariant_def
      split: sum.splits)

lemma performSingleSearchStream_facts:
  "(snd (fst (performSingleSearchStream q w)) = None
      \<longleftrightarrow> Success (fst (fst (performSingleSearchStream q w))))
   \<and> Query (fst (fst (performSingleSearchStream q w))) = q
   \<and> outcomeInvariant (fst (fst (performSingleSearchStream q w)))
   \<and> Summary (fst (fst (performSingleSearchStream q w))) = []
   \<and> Duration (fst (fst (performSingleSearchStream q w)))
       = instant (clock w (clockReads w + 2)) - instant (clock w (clockReads w))
   \<and> Timestamp (fst (fst (performSingleSearchStream q w))) = clock w (clockReads w)"
  by (simp add: performSingleSearchStream_eq Let_def zeroSearchResult_def outcomeInvariant_def)

text \<open>\<open>processQuery\<close>, given what the executor returned.\<close>

lemma processQuery_failed:
  assumes "performSingleSearch q (snd (timeNow w)) = ((sr, Some m), w2)"
  shows "fst (processQuery q b w) =
           zeroSearchResult\<lparr>Query := q, Timestamp := fst (timeNow w), Success := False,
             Error := m, Duration := fst (timeSince (fst (timeNow w)) w2)\<rparr>"
  using assms by (simp add: processQuery_def case_prod_beta Let_def)

lemma processQuery_plain:
  assumes "performSingleSearch q (snd (timeNow w)) = ((sr, None), w2)"
  shows "fst (processQuery q False w) =
           zeroSearchResult\<lparr>Query := q, Timestamp := fst (timeNow w), Response := Response sr,
             Success := Success sr, Duration := Duration sr\<rparr>"
  using assms by (simp add: processQuery_def case_prod_beta Let_def)

lemma processQuery_summarised:
  assumes "performSingleSearch q (snd (timeNow w)) = ((sr, None), w2)"
  shows "fst (processQuery q True w) =
           zeroSearchResult\<lparr>Query := q, Timestamp := fst (timeNow w), Response := Response sr,
             Success := Success sr, Duration := Duration sr,
             Summary := (if Success sr
                         then case snd (fst (generateSummary q (Response sr) w2)) of
                                Some e \<Rightarrow> ''Summary generation failed''
                              | None \<Rightarrow> fst (fst (generateSummary q (Response sr) w2))
                         else [])\<rparr>"
  using assms
  by (simp add: processQuery_def case_prod_beta Let_def zeroSearchResult_def split: option.splits)

section \<open>The batch: invariants of every schedule\<close>

lemma runSchedule_invariant:
  assumes "runSchedule qs config es s = Some s'"
    and "I s"
    and "\<And>e t t'. I t \<Longrightarrow> fire qs config e t = Some t' \<Longrightarrow> I t'"
  shows "I s'"
  using assms(1,2)
proof (induction es arbitrary: s)
  case Nil
  then show ?case by simp
next
  case (Cons e es)
  from Cons.prems(1) obtain t where t: "fire qs config e s = Some t"
    and rest: "runSchedule qs config es t = Some s'"
    by (auto split: option.splits)
  from assms(3) [OF Cons.prems(2) t] have "I t" .
  with Cons.IH rest show ?case by blast
qed

lemma slotsOk_initial: "slotsOk qs config (initialPool (length qs))"
  by (simp add: slotsOk_def initialPool_def)

lemma slotsOk_fire:
  assumes "slotsOk qs config s" and "fire qs config e s = Some s'"
  shows "slotsOk qs config s'"
proof (cases e)
  case (Acquire i)
  with assms show ?thesis
    by (auto simp add: slotsOk_def nth_list_update split: if_splits)
next
  case (CallBegin i)
  with assms show ?thesis
    by (auto simp add: slotsOk_def nth_list_update split: if_splits)
next
  case (CallEnd i)
  with assms show ?thesis
    by (auto simp add: slotsOk_def nth_list_update split: if_splits)
next
  case (Complete i w)
  with assms show ?thesis
    by (auto simp add: slotsOk_def nth_list_update case_prod_beta split: if_splits)
qed

lemma slotsOk_run:
  assumes "runSchedule qs config es (initialPool (length qs)) = Some s"
  shows "slotsOk qs config s"
  using assms slotsOk_initial slotsOk_fire by (rule runSchedule_invariant)

lemma length_filter_update:
  assumes "i < length xs"
  shows "length (filter P (xs[i := y])) + (if P (xs ! i) then 1 else 0)
           = length (filter P xs) + (if P y then 1 else 0)"
  using assms
proof (induction xs arbitrary: i)
  case Nil
  then show ?case by simp
next
  case (Cons x xs)
  then show ?case by (cases i) auto
qed

lemma semOk_fire:
  assumes "semOk config s \<and> length (phases s) = length qs" and "fire qs config e s = Some s'"
  shows "semOk config s' \<and> length (phases s') = length qs"
proof (cases e)
  case (Acquire i)
  with assms length_filter_update [of i "phases s" "\<lambda>p. p = Running \<or> p = Calling" Running]
  show ?thesis
    by (auto simp add: semOk_def holders_def split: if_splits)
next
  case (CallBegin i)
  with assms length_filter_update [of i "phases s" "\<lambda>p. p = Running \<or> p = Calling" Calling]
  show ?thesis
    by (auto simp add: semOk_def holders_def split: if_splits)
next
  case (CallEnd i)
  with assms length_filter_update [of i "phases s" "\<lambda>p. p = Running \<or> p = Calling" Running]
  show ?thesis
    by (auto simp add: semOk_def holders_def split: if_splits)
next
  case (Complete i w)
  with assms length_filter_update [of i "phases s" "\<lambda>p. p = Running \<or> p = Calling" Finished]
  show ?thesis
    by (auto simp add: semOk_def holders_def case_prod_beta split: if_splits)
qed

lemma semOk_run:
  assumes "runSchedule qs config es (initialPool (length qs)) = Some s" and "0 \<le> workers config"
  shows "semOk config s \<and> length (phases s) = length qs"
proof -
  have init: "semOk config (initialPool (length qs))
              \<and> length (phases (initialPool (length qs))) = length qs"
    using assms(2) by (simp add: semOk_def holders_def initialPool_def)
  show ?thesis
    using assms(1) init semOk_fire by (rule runSchedule_invariant)
qed

lemma inFlight_le_holders: "inFlight s \<le> holders s"
proof -
  have "length (filter (\<lambda>p. p = Calling) xs) \<le> length (filter (\<lambda>p. p = Running \<or> p = Calling) xs)"
    for xs :: "phase list"
    by (induction xs) auto
  then show ?thesis by (simp add: inFlight_def holders_def)
qed

lemma countSuccess_eq: "countSuccess xs n = n + length (filter Success xs)"
  by (induction xs arbitrary: n) auto

lemma all_Success_conv: "length (filter Success xs) = length xs \<longleftrightarrow> (\<forall>r \<in> set xs. Success r)"
proof (induction xs)
  case Nil
  then show ?case by simp
next
  case (Cons x xs)
  have "length (filter Success xs) \<le> length xs" by simp
  then have "length (filter Success xs) \<noteq> Suc (length xs)" by arith
  with Cons show ?case by auto
qed

lemma processQuery_outcome:
  "Query (fst (processQuery q b w)) = q \<and> outcomeInvariant (fst (processQuery q b w))"
proof -
  obtain sr e w2 where ps: "performSingleSearch q (snd (timeNow w)) = ((sr, e), w2)"
    by (metis prod.exhaust)
  from performSingleSearch_facts [of q "snd (timeNow w)"] ps
  have facts: "e = None \<longleftrightarrow> Success sr" "outcomeInvariant sr" "e \<noteq> Some []"
    by simp_all
  show ?thesis
  proof (cases e)
    case None
    with facts have sr: "Success sr" "Response sr \<noteq> []"
      by (simp_all add: outcomeInvariant_def)
    show ?thesis
    proof (cases b)
      case True
      with processQuery_summarised [OF ps [unfolded None]] sr show ?thesis
        by (simp add: outcomeInvariant_def zeroSearchResult_def)
    next
      case False
      with processQuery_plain [OF ps [unfolded None]] sr show ?thesis
        by (simp add: outcomeInvariant_def zeroSearchResult_def)
    qed
  next
    case (Some m)
    with facts have "m \<noteq> []" by simp
    with processQuery_failed [OF ps [unfolded Some]] show ?thesis
      by (simp add: outcomeInvariant_def zeroSearchResult_def)
  qed
qed

declare decimal.simps [simp del]

lemma decimal_nonempty: "decimal n \<noteq> []"
  by (subst decimal.simps) simp

lemma processMultipleQueries_Inr:
  assumes "fst (processMultipleQueries qs config sched w) = Inr m"
  obtains s where "runSchedule qs config sched (initialPool (length qs)) = Some s"
    and "0 \<le> workers config"
    and "list_all (\<lambda>p. p = Finished) (phases s)"
    and "Results m = results s"
    and "Success_multi m \<longleftrightarrow> countSuccess (results s) 0 = length qs"
    and "Error_multi m =
           (if countSuccess (results s) 0 = length qs then []
            else ''Completed '' @ decimal (countSuccess (results s) 0) @ ''/''
                 @ decimal (length qs) @ '' queries successfully'')"
proof (cases "poolAfter qs config sched")
  case (Inl failure)
  with assms show ?thesis
    by (simp add: processMultipleQueries_def case_prod_beta)
next
  case (Inr s)
  then have run: "runSchedule qs config sched (initialPool (length qs)) = Some s"
    and nonneg: "0 \<le> workers config"
    by (simp_all add: poolAfter_def split: if_splits option.splits)
  show ?thesis
  proof (cases "list_all (\<lambda>p. p = Finished) (phases s)")
    case True
    with assms Inr have
      "Results m = results s"
      "Success_multi m \<longleftrightarrow> countSuccess (results s) 0 = length qs"
      "Error_multi m =
           (if countSuccess (results s) 0 = length qs then []
            else ''Completed '' @ decimal (countSuccess (results s) 0) @ ''/''
                 @ decimal (length qs) @ '' queries successfully'')"
      by (auto simp add: processMultipleQueries_def case_prod_beta Let_def split: if_splits)
    with that run nonneg True show ?thesis by blast
  next
    case False
    with assms Inr show ?thesis
      by (simp add: processMultipleQueries_def case_prod_beta)
  qed
qed

text \<open>With a capacity of at least one, a batch can always run to its end: the claims
  about the batches that return are not about an empty set.\<close>

lemma runSchedule_append:
  "runSchedule qs config (es @ fs) s =
     (case runSchedule qs config es s of None \<Rightarrow> None | Some t \<Rightarrow> runSchedule qs config fs t)"
  by (induction es arbitrary: s) (auto split: option.splits)

lemma oneByOne_prefix:
  assumes "1 \<le> workers config" and "k \<le> length qs"
  shows "\<exists>s. runSchedule qs config (oneByOne k ws) (initialPool (length qs)) = Some s
             \<and> phases s = replicate k Finished @ replicate (length qs - k) Queued
             \<and> sem s = 0"
  using assms(2)
proof (induction k)
  case 0
  then show ?case by (simp add: oneByOne_def initialPool_def)
next
  case (Suc k)
  then obtain s where run: "runSchedule qs config (oneByOne k ws) (initialPool (length qs)) = Some s"
    and ph: "phases s = replicate k Finished @ replicate (length qs - k) Queued"
    and tokens: "sem s = 0"
    by auto
  from Suc.prems have k: "k < length qs" by simp
  then obtain n where n: "length qs - k = Suc n" by (cases "length qs - k") auto
  have queued: "phases s ! k = Queued"
    by (simp add: ph nth_append n)
  have next_step: "oneByOne (Suc k) ws = oneByOne k ws @ [Acquire k, Complete k (ws k)]"
    by (simp add: oneByOne_def)
  have shape: "(phases s)[k := Finished] = replicate (Suc k) Finished @ replicate (length qs - Suc k) Queued"
  proof -
    have "length qs - Suc k = n" using n by simp
    then show ?thesis
      by (simp add: ph n list_update_append replicate_append_same)
  qed
  have len: "length (phases s) = length qs"
    using k by (simp add: ph)
  from assms(1) k queued tokens shape run len show ?case
    by (simp add: next_step runSchedule_append case_prod_beta)
qed

lemma batch_can_complete:
  assumes "1 \<le> workers config"
  shows "\<exists>m. fst (processMultipleQueries qs config (oneByOne (length qs) ws) w) = Inr m"
proof -
  from oneByOne_prefix [OF assms, of "length qs" qs ws]
  obtain s where "runSchedule qs config (oneByOne (length qs) ws) (initialPool (length qs)) = Some s"
    and "phases s = replicate (length qs) Finished"
    by auto
  with assms show ?thesis
    by (simp add: processMultipleQueries_def poolAfter_def case_prod_beta Let_def list_all_length)
qed

section \<open>Concrete runs\<close>

lemma cannedWorld_sel:
  "systemInstructionText (cannedWorld e se) = ''system''"
  "summaryInstructionText (cannedWorld e se) = ''summary''"
  "clock (cannedWorld e se) = cannedClock"
  "clockReads (cannedWorld e se) = 0"
  "engine (cannedWorld e se) = e"
  "streamEngine (cannedWorld e se) = se"
  "calls (cannedWorld e se) = []"
  "streamCalls (cannedWorld e se) = []"
  by (simp_all add: cannedWorld_def)

lemma processQuery_alwaysAnswer:
  "fst (processQuery q True (cannedWorld alwaysAnswer noStream)) =
     \<lparr>Query = q, Response = ''long answer'', Summary = ''short'', Success = True, Error = [],
      Duration = 2000, Timestamp = \<lparr>instant = 0, dateOnly = ''2026-01-15''\<rparr>\<rparr>"
  by (simp add: processQuery_def performSingleSearch_eq generateSummary_eq timeNow_def
      cannedWorld_def alwaysAnswer_def cannedClock_def searchRequest_def summaryRequest_def
      tools_def answered_def Text_def zeroSearchResult_def Let_def)

lemma outOfOrder_run:
  "fst (processMultipleQueries [''Go'', ''Python''] batchConfig outOfOrder
         (cannedWorld noEngine noStream)) =
   Inr \<lparr>Results =
          [\<lparr>Query = ''Go'', Response = ''long answer'', Summary = ''short'', Success = True,
            Error = [], Duration = 2000,
            Timestamp = \<lparr>instant = 0, dateOnly = ''2026-01-15''\<rparr>\<rparr>,
           \<lparr>Query = ''Python'', Response = ''long answer'', Summary = ''short'', Success = True,
            Error = [], Duration = 2000,
            Timestamp = \<lparr>instant = 0, dateOnly = ''2026-01-15''\<rparr>\<rparr>],
        TotalTime = 1000, Success_multi = True, Error_multi = []\<rparr>"
  by (simp add: processMultipleQueries_def poolAfter_def outOfOrder_def batchConfig_def
      initialPool_def processQuery_alwaysAnswer timeNow_def timeSince_def cannedWorld_sel
      cannedClock_def Let_def case_prod_beta)

section \<open>The summary step and the exhausted retries\<close>

lemma summary_failure_keeps_success:
  "let ((searchResult, err), w2) = performSingleSearch q (snd (timeNow w));
       ((summary, err'), w3) = generateSummary q (Response searchResult) w2;
       (result, w') = processQuery q True w
   in err = None \<and> err' \<noteq> None \<longrightarrow>
        Success result \<and> Summary result = ''Summary generation failed''
        \<and> Response result = Response searchResult"
proof -
  obtain sr e w2 where ps: "performSingleSearch q (snd (timeNow w)) = ((sr, e), w2)"
    by (metis prod.exhaust)
  from performSingleSearch_facts [of q "snd (timeNow w)"] ps
  have facts: "e = None \<longleftrightarrow> Success sr" by simp
  show ?thesis
  proof (cases e)
    case None
    with facts processQuery_summarised [OF ps [unfolded None]] ps show ?thesis
      by (auto simp add: case_prod_beta Let_def)
  next
    case (Some m)
    with ps show ?thesis by (simp add: case_prod_beta Let_def)
  qed
qed

lemma mainSingleQuery_summary:
  assumes "\<not> stream config" and "includeSummary config"
    and "performSingleSearch (query config) w = ((sr, None), w2)"
  shows "fst (mainSingleQuery config w) =
           Inr (sr\<lparr>Summary := (case snd (fst (generateSummary (Query sr) (Response sr) w2)) of
                                  Some e \<Rightarrow> ''Summary generation failed''
                                | None \<Rightarrow> fst (fst (generateSummary (Query sr) (Response sr) w2)))\<rparr>)"
proof -
  from performSingleSearch_facts [of "query config" w] assms(3) have "Success sr" by simp
  with assms show ?thesis
    by (simp add: mainSingleQuery_def case_prod_beta Let_def split: option.splits)
qed

lemma main_summary_failure_keeps_success:
  "let ((searchResult, err), w2) = performSingleSearch (query config) w;
       ((summary, err'), w3) = generateSummary (Query searchResult) (Response searchResult) w2
   in \<not> stream config \<and> includeSummary config \<and> err = None \<and> err' \<noteq> None \<longrightarrow>
        fst (mainSingleQuery config w) =
          Inr (searchResult\<lparr>Summary := ''Summary generation failed''\<rparr>)
        \<and> Success searchResult"
proof -
  obtain sr e w2 where ps: "performSingleSearch (query config) w = ((sr, e), w2)"
    by (metis prod.exhaust)
  from performSingleSearch_facts [of "query config" w] ps
  have facts: "e = None \<longleftrightarrow> Success sr" by simp
  show ?thesis
  proof (cases e)
    case None
    with facts ps show ?thesis
      by (auto simp add: case_prod_beta Let_def
          mainSingleQuery_summary [OF _ _ ps [unfolded None]])
  next
    case (Some m)
    with ps show ?thesis by (simp add: case_prod_beta Let_def)
  qed
qed

lemma performSingleSearch_exhausted:
  "let req = searchRequest (systemInstructionText w) q (dateOnly (clock w (Suc (clockReads w))));
       r1 = engine w (length (calls w)) req;
       r2 = engine w (Suc (length (calls w))) req;
       ((result, err), w') = performSingleSearch q w
   in \<not> answered r1 \<and> \<not> answered r2 \<longrightarrow>
        \<not> Success result \<and> Response result = []
        \<and> Error result = (case r2 of Inl e \<Rightarrow> ''Search failed'' | Inr a \<Rightarrow> ''Empty response'')
        \<and> err = Some (case r2 of Inl e \<Rightarrow> ''failed to generate content after retries: '' @ e
                                | Inr a \<Rightarrow> ''received empty response after retries'')"
  by (simp add: performSingleSearch_eq Let_def answered_def zeroSearchResult_def split: sum.splits)

lemma processQuery_exhausted:
  "let req = searchRequest (systemInstructionText w) q (dateOnly (clock w (clockReads w + 2)));
       r1 = engine w (length (calls w)) req;
       r2 = engine w (Suc (length (calls w))) req;
       (result, w') = processQuery q b w
   in \<not> answered r1 \<and> \<not> answered r2 \<longrightarrow>
        \<not> Success result \<and> Response result = []
        \<and> Error result = (case r2 of Inl e \<Rightarrow> ''failed to generate content after retries: '' @ e
                                     | Inr a \<Rightarrow> ''received empty response after retries'')"
proof -
  obtain sr e w2 where ps: "performSingleSearch q (snd (timeNow w)) = ((sr, e), w2)"
    by (metis prod.exhaust)
  show ?thesis
  proof (cases e)
    case None
    with performSingleSearch_facts [of q "snd (timeNow w)"] ps have "Success sr" by simp
    with performSingleSearch_exhausted [of "snd (timeNow w)" q] ps show ?thesis
      by (auto simp add: case_prod_beta Let_def timeNow_def eval_nat_numeral)
  next
    case (Some m)
    with performSingleSearch_exhausted [of "snd (timeNow w)" q] ps
      processQuery_failed [OF ps [unfolded Some], of b]
    show ?thesis
      by (simp add: case_prod_beta Let_def timeNow_def eval_nat_numeral zeroSearchResult_def)
  qed
qed

section \<open>More concrete runs\<close>

lemmas canned_defs =
  cannedWorld_sel cannedClock_def searchRequest_def summaryRequest_def tools_def answered_def
  Text_def zeroSearchResult_def Let_def

lemma performSingleSearch_alwaysEmpty:
  "fst (performSingleSearch q (cannedWorld alwaysEmpty noStream)) =
     (\<lparr>Query = q, Response = [], Summary = [], Success = False, Error = ''Empty response'',
       Duration = 2000, Timestamp = \<lparr>instant = 0, dateOnly = ''2026-01-15''\<rparr>\<rparr>,
      Some ''received empty response after retries'')"
  by (simp add: performSingleSearch_eq alwaysEmpty_def canned_defs)

lemma processQuery_alwaysEmpty:
  "fst (processQuery q b (cannedWorld alwaysEmpty noStream)) =
     \<lparr>Query = q, Response = [], Summary = [], Success = False,
      Error = ''received empty response after retries'',
      Duration = 4000, Timestamp = \<lparr>instant = 0, dateOnly = ''2026-01-15''\<rparr>\<rparr>"
  by (simp add: processQuery_def performSingleSearch_eq timeNow_def timeSince_def
      alwaysEmpty_def canned_defs)

lemma mixed_run:
  "fst (processMultipleQueries [''Go'', ''Python''] batchConfig mixedSchedule
         (cannedWorld noEngine noStream)) =
   Inr \<lparr>Results =
          [\<lparr>Query = ''Go'', Response = ''long answer'', Summary = ''short'', Success = True,
            Error = [], Duration = 2000,
            Timestamp = \<lparr>instant = 0, dateOnly = ''2026-01-15''\<rparr>\<rparr>,
           \<lparr>Query = ''Python'', Response = [], Summary = [], Success = False,
            Error = ''received empty response after retries'', Duration = 4000,
            Timestamp = \<lparr>instant = 0, dateOnly = ''2026-01-15''\<rparr>\<rparr>],
        TotalTime = 1000, Success_multi = False,
        Error_multi = ''Completed 1/2 queries successfully''\<rparr>"
  by (simp add: processMultipleQueries_def poolAfter_def mixedSchedule_def batchConfig_def
      initialPool_def processQuery_alwaysAnswer processQuery_alwaysEmpty timeNow_def
      timeSince_def cannedWorld_sel cannedClock_def Let_def case_prod_beta decimal.simps)

lemma bothCalling_run:
  "poolAfter [''Go'', ''Python''] batchConfig bothCalling =
     Inr \<lparr>phases = [Calling, Calling],
          results = [zeroSearchResult, zeroSearchResult], sem = 2\<rparr>"
  by (simp add: poolAfter_def bothCalling_def batchConfig_def initialPool_def)

section \<open>The claims\<close>

text \<open>
  Claim C1. Whatever the order in which the goroutines acquire the semaphore, call the
  engine and complete, a batch that returns has one result per query, and the result at
  position \<open>i\<close> carries the \<open>i\<close>-th query.
\<close>

theorem batch_results_aligned:
  assumes "fst (processMultipleQueries qs config sched w) = Inr m"
  shows "length (Results m) = length qs \<and> (\<forall>i < length qs. Query (Results m ! i) = qs ! i)"
proof -
  from assms obtain s where run: "runSchedule qs config sched (initialPool (length qs)) = Some s"
    and fin: "list_all (\<lambda>p. p = Finished) (phases s)"
    and res: "Results m = results s"
    by (rule processMultipleQueries_Inr)
  from slotsOk_run [OF run] have ok: "slotsOk qs config s" .
  have "Query (results s ! i) = qs ! i" if "i < length qs" for i
  proof -
    from ok that fin have "phases s ! i = Finished"
      by (simp add: slotsOk_def list_all_length)
    with ok that obtain w' where "results s ! i = fst (processQuery (qs ! i) (includeSummary config) w')"
      by (auto simp add: slotsOk_def)
    then show ?thesis by (simp add: processQuery_outcome)
  qed
  with ok res show ?thesis by (simp add: slotsOk_def)
qed

text \<open>A concrete input for it.\<close>

theorem batch_results_aligned_witness:
  "length (Results (projr (fst (processMultipleQueries [''Go'', ''Python''] batchConfig outOfOrder
             (cannedWorld noEngine noStream))))) = 2
   \<and> Query (Results (projr (fst (processMultipleQueries [''Go'', ''Python''] batchConfig outOfOrder
             (cannedWorld noEngine noStream)))) ! 0) = ''Go''
   \<and> Query (Results (projr (fst (processMultipleQueries [''Go'', ''Python''] batchConfig outOfOrder
             (cannedWorld noEngine noStream)))) ! 1) = ''Python''"
  using batch_results_aligned [OF outOfOrder_run] by (simp add: outOfOrder_run)

text \<open>
  Claim C2. The flag \<open>Success\<close> of a batch holds exactly when every result succeeded; the
  field \<open>Error\<close> is set exactly when the flag is false, and then reads
  \<open>Completed k/N queries successfully\<close>, \<open>k\<close> the number of successful results and \<open>N\<close> the
  number of queries, both in decimal.
\<close>

theorem batch_success_flag:
  assumes "fst (processMultipleQueries qs config sched w) = Inr m"
  shows "(Success_multi m \<longleftrightarrow> (\<forall>r \<in> set (Results m). Success r))
         \<and> (Error_multi m \<noteq> [] \<longleftrightarrow> \<not> Success_multi m)
         \<and> (\<not> Success_multi m \<longrightarrow>
              Error_multi m = ''Completed '' @ decimal (length (filter Success (Results m)))
                @ ''/'' @ decimal (length qs) @ '' queries successfully'')"
proof -
  from assms obtain s where run: "runSchedule qs config sched (initialPool (length qs)) = Some s"
    and res: "Results m = results s"
    and flag: "Success_multi m \<longleftrightarrow> countSuccess (results s) 0 = length qs"
    and msg: "Error_multi m =
           (if countSuccess (results s) 0 = length qs then []
            else ''Completed '' @ decimal (countSuccess (results s) 0) @ ''/''
                 @ decimal (length qs) @ '' queries successfully'')"
    by (rule processMultipleQueries_Inr)
  from slotsOk_run [OF run] have len: "length (results s) = length qs"
    by (simp add: slotsOk_def)
  have count: "countSuccess (results s) 0 = length (filter Success (results s))"
    by (simp add: countSuccess_eq)
  from flag len count all_Success_conv [of "results s"]
  have "Success_multi m \<longleftrightarrow> (\<forall>r \<in> set (Results m). Success r)"
    by (simp add: res)
  moreover from flag msg have "Error_multi m \<noteq> [] \<longleftrightarrow> \<not> Success_multi m"
    by simp
  moreover from flag msg count res
  have "\<not> Success_multi m \<longrightarrow>
          Error_multi m = ''Completed '' @ decimal (length (filter Success (Results m)))
            @ ''/'' @ decimal (length qs) @ '' queries successfully''"
    by simp
  ultimately show ?thesis by blast
qed

text \<open>A concrete input for it.\<close>

theorem batch_success_flag_witness:
  "\<not> Success_multi (projr (fst (processMultipleQueries [''Go'', ''Python''] batchConfig
        mixedSchedule (cannedWorld noEngine noStream))))
   \<and> Error_multi (projr (fst (processMultipleQueries [''Go'', ''Python''] batchConfig
        mixedSchedule (cannedWorld noEngine noStream)))) = ''Completed 1/2 queries successfully''"
  using batch_success_flag [OF mixed_run] by (simp add: mixed_run decimal.simps)

text \<open>
  Claim C3. \<open>performSingleSearch\<close> calls the engine once when the first call returns a
  response whose text is not empty, and twice when it returns an error or a response whose
  text is empty, never more; it makes no streaming call. A first response with text is the
  answer. When the first call fails in either way and the second returns a response with
  text, the outcome succeeds with the second text. The condition is stated on what the
  engine returns, \<open>r1\<close> and \<open>r2\<close>.
\<close>

theorem performSingleSearch_attempts:
  "let req = searchRequest (systemInstructionText w) q (dateOnly (clock w (Suc (clockReads w))));
       r1 = engine w (length (calls w)) req;
       r2 = engine w (Suc (length (calls w))) req;
       ((result, err), w') = performSingleSearch q w
   in calls w' = calls w @ (case r1 of Inl e \<Rightarrow> [req, req]
                              | Inr a \<Rightarrow> if Text a = [] then [req, req] else [req])
      \<and> streamCalls w' = streamCalls w
      \<and> length (calls w') \<le> length (calls w) + 2
      \<and> (\<forall>a. r1 = Inr a \<and> Text a \<noteq> [] \<longrightarrow>
            Success result \<and> Response result = Text a \<and> err = None)
      \<and> (\<forall>a b. r1 = Inr a \<and> Text a = [] \<and> r2 = Inr b \<and> Text b \<noteq> [] \<longrightarrow>
            Success result \<and> Response result = Text b \<and> err = None)
      \<and> (\<forall>e b. r1 = Inl e \<and> r2 = Inr b \<and> Text b \<noteq> [] \<longrightarrow>
            Success result \<and> Response result = Text b \<and> err = None)"
  by (simp add: performSingleSearch_eq Let_def answered_def split: sum.splits)

text \<open>Concrete inputs for it: an empty text then an answer (two calls), an answer at once
  (one call), an error each time (two calls).\<close>

theorem performSingleSearch_attempts_witness:
  "emptyThenAnswer 0 (searchRequest ''system'' ''Go'' ''2026-01-15'') = Inr [[]]
   \<and> emptyThenAnswer 1 (searchRequest ''system'' ''Go'' ''2026-01-15'') = Inr [''Go is a language'']
   \<and> length (calls (snd (performSingleSearch ''Go'' (cannedWorld emptyThenAnswer noStream)))) = 2
   \<and> Success (fst (fst (performSingleSearch ''Go'' (cannedWorld emptyThenAnswer noStream))))
   \<and> Response (fst (fst (performSingleSearch ''Go'' (cannedWorld emptyThenAnswer noStream))))
       = ''Go is a language''
   \<and> alwaysAnswer 0 (searchRequest ''system'' ''Go'' ''2026-01-15'') = Inr [''long answer'']
   \<and> length (calls (snd (performSingleSearch ''Go'' (cannedWorld alwaysAnswer noStream)))) = 1
   \<and> Success (fst (fst (performSingleSearch ''Go'' (cannedWorld alwaysAnswer noStream))))
   \<and> Response (fst (fst (performSingleSearch ''Go'' (cannedWorld alwaysAnswer noStream))))
       = ''long answer''
   \<and> alwaysError 0 (searchRequest ''system'' ''Go'' ''2026-01-15'') = Inl ''deadline exceeded''
   \<and> length (calls (snd (performSingleSearch ''Go'' (cannedWorld alwaysError noStream)))) = 2"
  using performSingleSearch_attempts [where w = "cannedWorld emptyThenAnswer noStream" and q = "''Go''"]
    performSingleSearch_attempts [where w = "cannedWorld alwaysAnswer noStream" and q = "''Go''"]
    performSingleSearch_attempts [where w = "cannedWorld alwaysError noStream" and q = "''Go''"]
  by (simp add: case_prod_beta emptyThenAnswer_def alwaysAnswer_def alwaysError_def canned_defs)

text \<open>
  Claim C4, amended. When both attempts fail, the outcome of \<open>performSingleSearch\<close> has
  \<open>Success = False\<close>, an empty \<open>Response\<close> and the \<open>Error\<close> \<open>Search failed\<close> when the
  second call returned an error, \<open>Empty response\<close> when it returned an empty text. The
  outcome \<open>processQuery\<close> stores in a batch also has \<open>Success = False\<close> and an empty
  \<open>Response\<close>, but its \<open>Error\<close> is the message of the error value:
  \<open>failed to generate content after retries: \<close> followed by the engine's error, or
  \<open>received empty response after retries\<close>.
\<close>

theorem exhausted_failure_reason:
  "let req = searchRequest (systemInstructionText w) q (dateOnly (clock w (Suc (clockReads w))));
       r1 = engine w (length (calls w)) req;
       r2 = engine w (Suc (length (calls w))) req;
       ((result, err), w') = performSingleSearch q w;
       req' = searchRequest (systemInstructionText w) q (dateOnly (clock w (clockReads w + 2)));
       r1' = engine w (length (calls w)) req';
       r2' = engine w (Suc (length (calls w))) req';
       (stored, w'') = processQuery q b w
   in (\<not> answered r1 \<and> \<not> answered r2 \<longrightarrow>
         \<not> Success result \<and> Response result = []
         \<and> Error result = (case r2 of Inl e \<Rightarrow> ''Search failed'' | Inr a \<Rightarrow> ''Empty response''))
      \<and> (\<not> answered r1' \<and> \<not> answered r2' \<longrightarrow>
         \<not> Success stored \<and> Response stored = []
         \<and> Error stored =
             (case r2' of Inl e \<Rightarrow> ''failed to generate content after retries: '' @ e
                        | Inr a \<Rightarrow> ''received empty response after retries''))"
  using performSingleSearch_exhausted [of w q] processQuery_exhausted [of w q b]
  by (simp add: case_prod_beta Let_def)

text \<open>A concrete input for it.\<close>

theorem exhausted_failure_reason_witness:
  "Error (fst (fst (performSingleSearch ''Go'' (cannedWorld alwaysEmpty noStream))))
     = ''Empty response''
   \<and> Error (fst (processQuery ''Go'' True (cannedWorld alwaysEmpty noStream)))
     = ''received empty response after retries''"
  using exhausted_failure_reason
    [where w = "cannedWorld alwaysEmpty noStream" and q = "''Go''" and b = True]
  by (simp add: case_prod_beta alwaysEmpty_def canned_defs)

text \<open>
  The claim as stated fails for the outcome stored in a batch: with an engine that returns
  an empty text twice for the second query, the stored reason is not \<open>Empty response\<close>.
\<close>

theorem batch_failure_reason_counterexample:
  "\<not> Success (Results (projr (fst (processMultipleQueries [''Go'', ''Python''] batchConfig
        mixedSchedule (cannedWorld noEngine noStream)))) ! 1)
   \<and> Error (Results (projr (fst (processMultipleQueries [''Go'', ''Python''] batchConfig
        mixedSchedule (cannedWorld noEngine noStream)))) ! 1)
       = ''received empty response after retries''
   \<and> Error (Results (projr (fst (processMultipleQueries [''Go'', ''Python''] batchConfig
        mixedSchedule (cannedWorld noEngine noStream)))) ! 1) \<noteq> ''Empty response''"
  by (simp add: mixed_run)




text \<open>
  Claim C6. When the executor succeeded and \<open>generateSummary\<close> returns an error, the
  outcome keeps \<open>Success = True\<close> and its \<open>Summary\<close> is \<open>Summary generation failed\<close>,
  in \<open>processQuery\<close> as in the single-query path of \<open>main\<close>.
\<close>

theorem summary_failure_not_fatal:
  "(let ((searchResult, err), w2) = performSingleSearch q (snd (timeNow w));
        ((summary, err'), w3) = generateSummary q (Response searchResult) w2;
        (result, w') = processQuery q True w
    in err = None \<and> err' \<noteq> None \<longrightarrow>
         Success result \<and> Summary result = ''Summary generation failed''
         \<and> Response result = Response searchResult)
   \<and> (let ((searchResult, err), w2) = performSingleSearch (query config) w;
           ((summary, err'), w3) = generateSummary (Query searchResult) (Response searchResult) w2
       in \<not> stream config \<and> includeSummary config \<and> err = None \<and> err' \<noteq> None \<longrightarrow>
            fst (mainSingleQuery config w) =
              Inr (searchResult\<lparr>Summary := ''Summary generation failed''\<rparr>)
            \<and> Success searchResult)"
  using summary_failure_keeps_success [of q w] main_summary_failure_keeps_success [of config w]
  by blast

text \<open>A concrete input for it.\<close>

theorem summary_failure_not_fatal_witness:
  "Success (fst (processQuery ''Python'' True (cannedWorld answerThenError noStream)))
   \<and> Summary (fst (processQuery ''Python'' True (cannedWorld answerThenError noStream)))
       = ''Summary generation failed''
   \<and> Success (projr (fst (mainSingleQuery singleConfig (cannedWorld answerThenError noStream))))
   \<and> Summary (projr (fst (mainSingleQuery singleConfig (cannedWorld answerThenError noStream))))
       = ''Summary generation failed''"
proof -
  have cfg: "query singleConfig = ''Python''" "\<not> stream singleConfig" "includeSummary singleConfig"
    by (simp_all add: singleConfig_def)
  from summary_failure_not_fatal
    [where w = "cannedWorld answerThenError noStream" and q = "''Python''"
       and config = singleConfig]
  show ?thesis
    by (simp add: case_prod_beta cfg performSingleSearch_eq generateSummary_eq timeNow_def
        answerThenError_def canned_defs)
qed

text \<open>
  Claim C7. The outcome of \<open>performSingleSearch\<close>, of \<open>performSingleSearchStream\<close>, of
  \<open>processQuery\<close>, and every result of a batch either succeeds with a \<open>Response\<close> that is
  not empty and an empty \<open>Error\<close>, or fails with an \<open>Error\<close> that is not empty and an
  empty \<open>Response\<close>.
\<close>

theorem outcomes_well_formed:
  "outcomeInvariant (fst (fst (performSingleSearch q w)))
   \<and> outcomeInvariant (fst (fst (performSingleSearchStream q w)))
   \<and> outcomeInvariant (fst (processQuery q b w))
   \<and> (\<forall>m. fst (processMultipleQueries qs config sched w) = Inr m \<longrightarrow>
          list_all outcomeInvariant (Results m))"
proof -
  have "list_all outcomeInvariant (Results m)"
    if "fst (processMultipleQueries qs config sched w) = Inr m" for m
  proof -
    from that obtain s where run: "runSchedule qs config sched (initialPool (length qs)) = Some s"
      and fin: "list_all (\<lambda>p. p = Finished) (phases s)"
      and res: "Results m = results s"
      by (rule processMultipleQueries_Inr)
    from slotsOk_run [OF run] have ok: "slotsOk qs config s" .
    have "outcomeInvariant (results s ! i)" if "i < length (results s)" for i
    proof -
      from ok that have i: "i < length qs" by (simp add: slotsOk_def)
      with ok fin have "phases s ! i = Finished"
        by (simp add: slotsOk_def list_all_length)
      with ok i obtain w' where
        "results s ! i = fst (processQuery (qs ! i) (includeSummary config) w')"
        by (auto simp add: slotsOk_def)
      then show ?thesis by (simp add: processQuery_outcome)
    qed
    with res show ?thesis by (simp add: list_all_length)
  qed
  with performSingleSearch_facts [of q w] performSingleSearchStream_facts [of q w]
    processQuery_outcome [of q b w]
  show ?thesis by blast
qed

text \<open>A concrete input for it.\<close>

theorem outcomes_well_formed_witness:
  "outcomeInvariant (fst (fst (performSingleSearch ''Go'' (cannedWorld noEngine noStream))))
   \<and> outcomeInvariant (fst (fst (performSingleSearchStream ''Go'' (cannedWorld noEngine noStream))))
   \<and> outcomeInvariant (fst (processQuery ''Go'' True (cannedWorld noEngine noStream)))
   \<and> list_all outcomeInvariant
        (Results (projr (fst (processMultipleQueries [''Go'', ''Python''] batchConfig
           mixedSchedule (cannedWorld noEngine noStream)))))"
  using outcomes_well_formed
    [where w = "cannedWorld noEngine noStream" and q = "''Go''" and b = True
       and qs = "[''Go'', ''Python'']" and config = batchConfig and sched = mixedSchedule]
  by (simp add: mixed_run)

text \<open>
  Claim C8. In every state a batch can reach, under every schedule, the number of
  goroutines with a call of the engine in flight is at most \<open>config.workers\<close>.
\<close>

theorem batch_in_flight_bounded:
  assumes "poolAfter qs config sched = Inr s"
  shows "int (inFlight s) \<le> workers config"
proof -
  from assms have run: "runSchedule qs config sched (initialPool (length qs)) = Some s"
    and nonneg: "0 \<le> workers config"
    by (simp_all add: poolAfter_def split: if_splits option.splits)
  from semOk_run [OF run nonneg] have "sem s = holders s" "int (sem s) \<le> workers config"
    by (simp_all add: semOk_def)
  with inFlight_le_holders [of s] show ?thesis by simp
qed

text \<open>A concrete input for it.\<close>

theorem batch_in_flight_bounded_witness:
  "inFlight (projr (poolAfter [''Go'', ''Python''] batchConfig bothCalling)) = 2
   \<and> workers batchConfig = 2"
proof -
  have "workers batchConfig = 2" by (simp add: batchConfig_def)
  with batch_in_flight_bounded [OF bothCalling_run] show ?thesis
    by (simp add: bothCalling_run inFlight_def)
qed

text \<open>
  Claim C9. Asking for the summary changes the field \<open>Summary\<close> only: on the same clock
  and engine, \<open>processQuery\<close> with and without the summary agree on \<open>Query\<close>,
  \<open>Response\<close>, \<open>Success\<close>, \<open>Error\<close>, \<open>Duration\<close> and \<open>Timestamp\<close>. On success these
  fields, \<open>Timestamp\<close> apart, are the executor's, and \<open>Duration\<close> is the difference
  of two clock readings taken before the summary is asked for.
\<close>

theorem processQuery_summary_frame:
  "let (r1, w1) = processQuery q True w;
       (r0, w0) = processQuery q False w;
       ((searchResult, err), w2) = performSingleSearch q (snd (timeNow w))
   in r1 = r0\<lparr>Summary := Summary r1\<rparr>
      \<and> Query r1 = Query r0 \<and> Response r1 = Response r0 \<and> Success r1 = Success r0
      \<and> Error r1 = Error r0 \<and> Duration r1 = Duration r0 \<and> Timestamp r1 = Timestamp r0
      \<and> (Success r1 \<longrightarrow>
            Query r1 = Query searchResult \<and> Response r1 = Response searchResult
            \<and> Success r1 = Success searchResult \<and> Error r1 = Error searchResult
            \<and> Duration r1 = Duration searchResult
            \<and> Duration r1 = instant (clock w (clockReads w + 3)) - instant (clock w (clockReads w + 1)))"
proof -
  obtain sr e w2 where ps: "performSingleSearch q (snd (timeNow w)) = ((sr, e), w2)"
    by (metis prod.exhaust)
  from performSingleSearch_facts [of q "snd (timeNow w)"] ps
  have facts: "e = None \<longleftrightarrow> Success sr" "Query sr = q" "outcomeInvariant sr"
    "Duration sr = instant (clock w (clockReads w + 3)) - instant (clock w (clockReads w + 1))"
    by (simp_all add: timeNow_def eval_nat_numeral)
  show ?thesis
  proof (cases e)
    case None
    with facts processQuery_summarised [OF ps [unfolded None]]
      processQuery_plain [OF ps [unfolded None]] ps
    show ?thesis
      by (simp add: case_prod_beta Let_def outcomeInvariant_def zeroSearchResult_def)
  next
    case (Some m)
    with processQuery_failed [OF ps [unfolded Some], of True]
      processQuery_failed [OF ps [unfolded Some], of False] ps
    show ?thesis
      by (simp add: case_prod_beta Let_def zeroSearchResult_def)
  qed
qed

text \<open>A concrete input for it.\<close>

theorem processQuery_summary_frame_witness:
  "fst (processQuery ''Go'' True (cannedWorld alwaysAnswer noStream))
     = (fst (processQuery ''Go'' False (cannedWorld alwaysAnswer noStream)))\<lparr>Summary := ''short''\<rparr>
   \<and> Success (fst (processQuery ''Go'' True (cannedWorld alwaysAnswer noStream)))
   \<and> Duration (fst (processQuery ''Go'' True (cannedWorld alwaysAnswer noStream))) = 2000"
  using processQuery_summary_frame [where w = "cannedWorld alwaysAnswer noStream" and q = "''Go''"]
  by (simp add: case_prod_beta processQuery_alwaysAnswer)

text \<open>
  Claim C10. Both executors return an error exactly when the outcome they return has
  \<open>Success = False\<close>; the outcome always carries the query and the elapsed time, and with
  an error a reason that is not empty.
\<close>

theorem executors_error_iff_failure:
  "let ((result, err), w') = performSingleSearch q w;
       ((result', err'), w'') = performSingleSearchStream q w;
       elapsed = instant (clock w (clockReads w + 2)) - instant (clock w (clockReads w))
   in (err \<noteq> None \<longleftrightarrow> \<not> Success result)
      \<and> (err' \<noteq> None \<longleftrightarrow> \<not> Success result')
      \<and> Query result = q \<and> Duration result = elapsed \<and> (err \<noteq> None \<longrightarrow> Error result \<noteq> [])
      \<and> Query result' = q \<and> Duration result' = elapsed \<and> (err' \<noteq> None \<longrightarrow> Error result' \<noteq> [])"
  using performSingleSearch_facts [of q w] performSingleSearchStream_facts [of q w]
  by (auto simp add: case_prod_beta Let_def outcomeInvariant_def)

text \<open>A concrete input for it.\<close>

theorem executors_error_iff_failure_witness:
  "snd (fst (performSingleSearch ''Go'' (cannedWorld alwaysError emptyStreams)))
     = Some ''failed to generate content after retries: deadline exceeded''
   \<and> \<not> Success (fst (fst (performSingleSearch ''Go'' (cannedWorld alwaysError emptyStreams))))
   \<and> Error (fst (fst (performSingleSearch ''Go'' (cannedWorld alwaysError emptyStreams))))
       = ''Search failed''
   \<and> snd (fst (performSingleSearchStream ''Go'' (cannedWorld alwaysError emptyStreams)))
       = Some ''received empty stream response after retries''
   \<and> \<not> Success (fst (fst (performSingleSearchStream ''Go'' (cannedWorld alwaysError emptyStreams))))
   \<and> Error (fst (fst (performSingleSearchStream ''Go'' (cannedWorld alwaysError emptyStreams))))
       = ''Empty stream response''"
  using executors_error_iff_failure [where w = "cannedWorld alwaysError emptyStreams" and q = "''Go''"]
  by (simp add: case_prod_beta performSingleSearch_eq performSingleSearchStream_eq
      alwaysError_def emptyStreams_def canned_defs)

end
